theory Spec2Isabelle
  imports Complex_Main "HOL-Library.Word"
begin

section \<open>music-metadata: the entry points of \<open>lib/core.ts\<close>\<close>

text \<open>
  \<open>lib/core.ts\<close> holds the library surface: \<open>parseStream\<close>, \<open>parseBuffer\<close>,
  \<open>parseFromTokenizer\<close>, \<open>orderTags\<close>, \<open>ratingToStars\<close> and \<open>scanAppendingHeaders\<close>.
  The interfaces it works on (\<open>ITag\<close>, \<open>IOptions\<close>, \<open>IRandomReader\<close>) are those of
  \<open>lib/type.ts\<close>. A JavaScript \<open>number\<close> that counts bytes is an \<open>int\<close>; an optional
  property is an \<open>option\<close>, \<open>None\<close> being \<open>undefined\<close>; an exception or a rejected
  promise is the \<open>Inl\<close> of a sum.
\<close>

subsection \<open>Data model\<close>

datatype error =
  TypeError          \<comment> \<open>raised by the JavaScript runtime: property of \<open>undefined\<close>, call of a non-function\<close>
  | Rejected string  \<comment> \<open>any other exception or promise rejection of an imported function\<close>

type_synonym Buffer = "8 word list"

text \<open>\<open>interface ITag { id: string, value: any }\<close>; the field names \<open>id\<close> and
  \<open>value\<close> are taken in Isabelle, hence the prefix.\<close>

record 'v ITag =
  tag_id :: string
  tag_value :: 'v

text \<open>\<open>interface INativeTagDict { [tagId: string]: any[] }\<close>: the own properties of the
  object.\<close>

type_synonym 'v INativeTagDict = "string \<rightharpoonup> 'v list"

text \<open>\<open>interface IRandomReader\<close>: \<open>fileSize\<close> and \<open>randomRead\<close>; a read at a position
  of a number of bytes gives the bytes read, or rejects.\<close>

record IRandomReader =
  fileSize :: int
  randomRead :: "int \<Rightarrow> nat \<Rightarrow> error + Buffer"

text \<open>\<open>interface IOptions\<close>, every property optional. \<open>'obs\<close> is the type of the
  observer callback.\<close>

record 'obs IOptions =
  path :: "string option"
  fileSize :: "int option"
  native :: "bool option"
  duration :: "bool option"
  skipCovers :: "bool option"
  skipPostHeaders :: "bool option"
  observer :: "'obs option"
  apeOffset :: "int option"

text \<open>The tokenizer of \<open>strtok3\<close>: \<open>fileSize?: number\<close> and \<open>position: number\<close>; what else
  an implementation holds is the record's extension.\<close>

record ITokenizer =
  fileSize :: "int option"
  position :: int

text \<open>The object literal \<open>{}\<close> that the default parameter \<open>options: IOptions = {}\<close>
  creates.\<close>

definition empty_options :: "'obs IOptions" where
  "empty_options = \<lparr>path = None, IOptions.fileSize = None, native = None, duration = None,
     skipCovers = None, skipPostHeaders = None, observer = None, apeOffset = None\<rparr>"

text \<open>JavaScript truthiness of a \<open>number | undefined\<close>, as \<open>!x\<close> and \<open>x && y\<close> test it:
  \<open>undefined\<close> and \<open>0\<close> are falsy.\<close>

definition truthy :: "int option \<Rightarrow> bool" where
  "truthy n = (case n of None \<Rightarrow> False | Some k \<Rightarrow> k \<noteq> 0)"

subsection \<open>The imported functions\<close>

text \<open>
  Modelled from the spec: \<open>core.ts\<close> imports \<open>strtok3.fromStream\<close>, \<open>strtok3.fromBuffer\<close>,
  \<open>ParserFactory.parseOnContentType\<close>, \<open>RandomBufferReader\<close>,
  \<open>APEv2Parser.findApeFooterOffset\<close>, \<open>hasID3v1Header\<close> and \<open>getLyricsHeaderLength\<close>; none
  of their modules is among the sources. They are parameters of the model: a record holds
  one function for each, of the type the call sites of \<open>core.ts\<close> give it, and every
  theorem holds for all such records. What the spec says of them (4.2, 5) is that each
  answers from the bytes it is given and keeps no state between parses, so each is a
  function of its arguments. The parser factory and the three probes are asynchronous and
  may reject; the two tokenizer constructors and \<open>new RandomBufferReader\<close> return.
  \<open>findApeFooterOffset\<close> resolves to the offset at which APEv2 begins, or to
  \<open>undefined\<close>. \<open>'s\<close> is \<open>Stream.Readable\<close>, \<open>'m\<close> is \<open>IAudioMetadata\<close> (\<open>format\<close>,
  \<open>native\<close>, \<open>quality.warnings\<close>, \<open>common\<close>), which \<open>core.ts\<close> hands on unread, and \<open>'z\<close>
  the extension of the tokenizer.
\<close>

record ('s, 'z, 'obs, 'm) externals =
  fromStream :: "'s \<Rightarrow> 'z ITokenizer_scheme"
  fromBuffer :: "Buffer \<Rightarrow> 'z ITokenizer_scheme"
  parseOnContentType ::
    "'z ITokenizer_scheme \<Rightarrow> string option \<Rightarrow> 'obs IOptions option \<Rightarrow> error + 'm"
  RandomBufferReader :: "Buffer \<Rightarrow> IRandomReader"
  findApeFooterOffset :: "IRandomReader \<Rightarrow> int \<Rightarrow> error + int option"
  hasID3v1Header :: "IRandomReader \<Rightarrow> error + bool"
  getLyricsHeaderLength :: "IRandomReader \<Rightarrow> error + int"

subsection \<open>\<open>parseFromTokenizer\<close>\<close>

text \<open>
  \<^verbatim>\<open>
  export function parseFromTokenizer(tokenizer: ITokenizer, mimeType?: string,
                                     options?: IOptions): Promise<IAudioMetadata> {
    if (!tokenizer.fileSize && options.fileSize) {
      tokenizer.fileSize = options.fileSize;
    }
    return ParserFactory.parseOnContentType(tokenizer, mimeType, options);
  }
  \<close>
  \<open>options\<close> has no default: \<open>None\<close> is the call without it. \<open>&&\<close> evaluates
  \<open>options.fileSize\<close> only when \<open>!tokenizer.fileSize\<close> holds, and reading a property of
  \<open>undefined\<close> throws a \<open>TypeError\<close>. The tokenizer the parser factory is called with is
  the tokenizer after the assignment.
\<close>

definition parseFromTokenizer ::
  "('s, 'z, 'obs, 'm) externals \<Rightarrow> 'z ITokenizer_scheme \<Rightarrow> string option \<Rightarrow>
     'obs IOptions option \<Rightarrow> error + 'm" where
  "parseFromTokenizer X tokenizer mimeType options =
     (if \<not> truthy (fileSize tokenizer) then
        (case options of
           None \<Rightarrow> Inl TypeError
         | Some opts \<Rightarrow>
             if truthy (IOptions.fileSize opts)
             then parseOnContentType X (tokenizer\<lparr>fileSize := IOptions.fileSize opts\<rparr>)
                    mimeType options
             else parseOnContentType X tokenizer mimeType options)
      else parseOnContentType X tokenizer mimeType options)"

subsection \<open>\<open>parseStream\<close>\<close>

text \<open>
  \<^verbatim>\<open>
  export function parseStream(stream: Stream.Readable, mimeType?: string,
                              options: IOptions = {}): Promise<IAudioMetadata> {
    return parseFromTokenizer(strtok3.fromStream(stream), mimeType, options);
  }
  \<close>
\<close>

definition parseStream ::
  "('s, 'z, 'obs, 'm) externals \<Rightarrow> 's \<Rightarrow> string option \<Rightarrow> 'obs IOptions option \<Rightarrow> error + 'm"
  where
  "parseStream X stream mimeType options =
     (let opts = (case options of None \<Rightarrow> empty_options | Some given \<Rightarrow> given)
      in parseFromTokenizer X (fromStream X stream) mimeType (Some opts))"

subsection \<open>\<open>scanAppendingHeaders\<close>\<close>

text \<open>
  \<^verbatim>\<open>
  export async function scanAppendingHeaders(randomReader: IRandomReader,
                                             options: IOptions = {}) {
    let apeOffset = randomReader.fileSize;
    if (await hasID3v1Header(randomReader)) {
      apeOffset -= 128;
      const lyricsLen = await getLyricsHeaderLength(randomReader);
      apeOffset -= lyricsLen;
    }
    options.apeOffset = await APEv2Parser.findApeFooterOffset(randomReader, apeOffset);
  }
  \<close>
  The function writes to the object it is given; the model returns the object as the
  call leaves it. An \<open>await\<close> that rejects ends the function before the assignment, so
  on \<open>Inl\<close> the object is as it was.
\<close>

definition scanAppendingHeaders ::
  "('s, 'z, 'obs, 'm) externals \<Rightarrow> IRandomReader \<Rightarrow> 'obs IOptions option \<Rightarrow>
     error + 'obs IOptions" where
  "scanAppendingHeaders X randomReader options =
     (let opts = (case options of None \<Rightarrow> empty_options | Some given \<Rightarrow> given);
          apeOffset0 = IRandomReader.fileSize randomReader
      in case hasID3v1Header X randomReader of
           Inl e \<Rightarrow> Inl e
         | Inr has \<Rightarrow>
             (case (if has
                    then (case getLyricsHeaderLength X randomReader of
                            Inl e \<Rightarrow> Inl e
                          | Inr lyricsLen \<Rightarrow> Inr (apeOffset0 - 128 - lyricsLen))
                    else Inr apeOffset0) of
                Inl e \<Rightarrow> Inl e
              | Inr apeOffset1 \<Rightarrow>
                  (case findApeFooterOffset X randomReader apeOffset1 of
                     Inl e \<Rightarrow> Inl e
                   | Inr found \<Rightarrow> Inr (opts\<lparr>apeOffset := found\<rparr>))))"

subsection \<open>\<open>parseBuffer\<close>\<close>

text \<open>
  \<^verbatim>\<open>
  export async function parseBuffer(buf: Buffer, mimeType?: string,
                                    options: IOptions = {}): Promise<IAudioMetadata> {
    const bufferReader = new RandomBufferReader(buf);
    await scanAppendingHeaders(bufferReader, options);
    const tokenizer = strtok3.fromBuffer(buf);
    return parseFromTokenizer(tokenizer, mimeType, options);
  }
  \<close>
  The result is the options object as \<open>core.ts\<close> leaves it, paired with the outcome of
  the promise. The only write to the object in \<open>core.ts\<close> is the one of
  \<open>scanAppendingHeaders\<close>.
\<close>

definition parseBuffer ::
  "('s, 'z, 'obs, 'm) externals \<Rightarrow> Buffer \<Rightarrow> string option \<Rightarrow> 'obs IOptions option \<Rightarrow>
     'obs IOptions \<times> (error + 'm)" where
  "parseBuffer X buf mimeType options =
     (let opts = (case options of None \<Rightarrow> empty_options | Some given \<Rightarrow> given);
          bufferReader = RandomBufferReader X buf
      in case scanAppendingHeaders X bufferReader (Some opts) of
           Inl e \<Rightarrow> (opts, Inl e)
         | Inr opts' \<Rightarrow>
             (opts', parseFromTokenizer X (fromBuffer X buf) mimeType (Some opts')))"

subsection \<open>\<open>orderTags\<close>\<close>

text \<open>
  \<^verbatim>\<open>
  export function orderTags(nativeTags: ITag[]): INativeTagDict {
    const tags = {};
    for (const tag of nativeTags) {
      (tags[tag.id] = (tags[tag.id] || [])).push(tag.value);
    }
    return tags;
  }
  \<close>
  \<open>tags\<close> is an object literal, so its prototype is \<open>Object.prototype\<close>: reading
  \<open>tags[k]\<close> gives the own property \<open>k\<close> when there is one, the property that
  \<open>Object.prototype\<close> has under the name \<open>k\<close> otherwise, and \<open>undefined\<close> when there is
  none either. The names below are the properties of \<open>Object.prototype\<close> (ECMAScript,
  with Annex B); each is a function, but \<open>__proto__\<close>, an accessor that gives
  \<open>Object.prototype\<close> itself: all are truthy and none has a \<open>push\<close>.
\<close>

definition Object_prototype :: "string list" where
  "Object_prototype =
     [''constructor'', ''hasOwnProperty'', ''isPrototypeOf'', ''propertyIsEnumerable'',
      ''toLocaleString'', ''toString'', ''valueOf'', ''__proto__'',
      ''__defineGetter__'', ''__defineSetter__'', ''__lookupGetter__'', ''__lookupSetter__'']"

datatype 'v property =
  Undefined            \<comment> \<open>no own and no inherited property\<close>
  | Inherited          \<comment> \<open>a property of \<open>Object.prototype\<close>\<close>
  | Array "'v list"    \<comment> \<open>an own property: the array stored earlier\<close>

definition get_property :: "'v INativeTagDict \<Rightarrow> string \<Rightarrow> 'v property" where
  "get_property tags k =
     (case tags k of
        Some vs \<Rightarrow> Array vs
      | None \<Rightarrow> if k \<in> set Object_prototype then Inherited else Undefined)"

text \<open>The loop body. \<open>tags[tag.id] || []\<close> is the array already stored, a fresh array
  when the read gave \<open>undefined\<close>, and the inherited value otherwise; \<open>push\<close> appends to
  an array, and calling the missing \<open>push\<close> of an inherited value throws.\<close>

definition orderTags_step :: "'v INativeTagDict \<Rightarrow> 'v ITag \<Rightarrow> error + 'v INativeTagDict" where
  "orderTags_step tags tag =
     (case get_property tags (tag_id tag) of
        Undefined \<Rightarrow> Inr (tags(tag_id tag \<mapsto> [] @ [tag_value tag]))
      | Array vs \<Rightarrow> Inr (tags(tag_id tag \<mapsto> vs @ [tag_value tag]))
      | Inherited \<Rightarrow> Inl TypeError)"

fun orderTags_loop :: "'v ITag list \<Rightarrow> 'v INativeTagDict \<Rightarrow> error + 'v INativeTagDict" where
  "orderTags_loop [] tags = Inr tags"
| "orderTags_loop (tag # rest) tags =
     (case orderTags_step tags tag of
        Inl e \<Rightarrow> Inl e
      | Inr tags' \<Rightarrow> orderTags_loop rest tags')"

definition orderTags :: "'v ITag list \<Rightarrow> error + 'v INativeTagDict" where
  "orderTags nativeTags = orderTags_loop nativeTags Map.empty"

subsection \<open>\<open>ratingToStars\<close>\<close>

text \<open>
  \<^verbatim>\<open>
  export function ratingToStars(rating: number): number {
    return rating === undefined ? 0 : 1 + Math.round(rating * 4);
  }
  \<close>
  \<open>Math.round\<close> gives the integer nearest to its argument, the larger one of two that
  are equally near. The rating is a real number here: for a double \<open>r\<close> between 0 and 1
  the product \<open>r * 4\<close> is exact in binary floating point, and so are \<open>Math.round\<close> and
  the sum, so that the doubles and the reals agree on the range the function is
  documented for.
\<close>

definition Math_round :: "real \<Rightarrow> int" where
  "Math_round x = \<lfloor>x + 1 / 2\<rfloor>"

definition ratingToStars :: "real option \<Rightarrow> int" where
  "ratingToStars rating = (case rating of None \<Rightarrow> 0 | Some r \<Rightarrow> 1 + Math_round (r * 4))"

subsection \<open>Stand-ins for the imported functions\<close>

text \<open>
  For the concrete runs below the imported functions need values. \<open>stand_ins id3 len\<close>
  answers as the spec describes the functions on a file whose ID3v1 trailer is present
  or not (\<open>id3\<close>), whose Lyrics3 block declares \<open>len\<close> bytes and whose APEv2 tag of 32
  bytes ends at the offset probed: \<open>fromStream\<close> gives a tokenizer without size,
  \<open>fromBuffer\<close> one with the buffer's length, \<open>RandomBufferReader\<close> reads from the
  buffer. Its parser factory resolves to the arguments it was called with, so that a run
  shows what reached the parser. A stream is the bytes it will deliver, and there is no
  observer.
\<close>

definition stand_ins ::
  "bool \<Rightarrow> int \<Rightarrow>
     (Buffer, unit, unit, ITokenizer \<times> string option \<times> unit IOptions option) externals" where
  "stand_ins id3 len =
     \<lparr>fromStream = (\<lambda>stream. \<lparr>ITokenizer.fileSize = None, position = 0\<rparr>),
      fromBuffer = (\<lambda>buf. \<lparr>ITokenizer.fileSize = Some (int (length buf)), position = 0\<rparr>),
      parseOnContentType = (\<lambda>tokenizer mimeType options. Inr (tokenizer, mimeType, options)),
      RandomBufferReader =
        (\<lambda>buf. \<lparr>IRandomReader.fileSize = int (length buf),
                 randomRead = (\<lambda>pos n. Inr (take n (drop (nat pos) buf)))\<rparr>),
      findApeFooterOffset = (\<lambda>reader offset. Inr (Some (offset - 32))),
      hasID3v1Header = (\<lambda>reader. Inr id3),
      getLyricsHeaderLength = (\<lambda>reader. Inr len)\<rparr>"

text \<open>A reader over a file of \<open>n\<close> bytes, all zero.\<close>

definition zero_reader :: "nat \<Rightarrow> IRandomReader" where
  "zero_reader n =
     \<lparr>IRandomReader.fileSize = int n,
      randomRead = (\<lambda>pos k. Inr (take k (drop (nat pos) (replicate n 0))))\<rparr>"

section \<open>Properties\<close>

subsection \<open>\<open>ratingToStars\<close>\<close>

lemma Math_round_nearest:
  "real_of_int (Math_round x) - 1 / 2 \<le> x \<and> x < real_of_int (Math_round x) + 1 / 2"
  unfolding Math_round_def by linarith

lemma Math_round_round: "Math_round x = round x"
  by (simp add: Math_round_def round_def)

text \<open>
  C4. \<open>ratingToStars\<close> gives 0 for the undefined rating and 1 + round(r * 4) for a rating
  \<open>r\<close>, \<open>round\<close> being rounding to the nearest integer; for a rating between 0 and 1 the
  result is one of 1, 2, 3, 4, 5.
\<close>

theorem ratingToStars_stars:
  "ratingToStars None = 0
   \<and> ratingToStars (Some r) = 1 + round (r * 4)
   \<and> (0 \<le> r \<and> r \<le> 1 \<longrightarrow> ratingToStars (Some r) \<in> {1, 2, 3, 4, 5})"
proof -
  have undef: "ratingToStars None = 0"
    by (simp add: ratingToStars_def)
  have defd: "ratingToStars (Some r) = 1 + round (r * 4)"
    by (simp add: ratingToStars_def Math_round_round)
  have range: "ratingToStars (Some r) \<in> {1, 2, 3, 4, 5}" if "0 \<le> r" "r \<le> 1"
  proof -
    have "0 \<le> Math_round (r * 4)" "Math_round (r * 4) \<le> 4"
      using that unfolding Math_round_def by linarith+
    then have "1 \<le> ratingToStars (Some r)" "ratingToStars (Some r) \<le> 5"
      by (simp_all add: ratingToStars_def)
    then show ?thesis by auto
  qed
  from undef defd range show ?thesis by blast
qed

theorem ratingToStars_stars_witness:
  "(0::real) \<le> 1 / 2 \<and> (1 / 2 :: real) \<le> 1 \<and> ratingToStars (Some (1 / 2)) = 3
   \<and> ratingToStars (Some (1 / 2)) \<in> {1, 2, 3, 4, 5}"
  using ratingToStars_stars [of "1 / 2"] by (simp add: ratingToStars_def Math_round_def)

text \<open>Each of the five values is taken: the ratings 0, 1/4, 1/2, 3/4 and 1 give 1 to 5
  stars, and a rating just under 1/8 still gives one star.\<close>

lemma ratingToStars_values:
  "ratingToStars (Some 0) = 1" "ratingToStars (Some (1 / 4)) = 2"
  "ratingToStars (Some (1 / 2)) = 3" "ratingToStars (Some (3 / 4)) = 4"
  "ratingToStars (Some 1) = 5" "ratingToStars (Some (1 / 8)) = 2"
  "ratingToStars (Some 0.124) = 1"
  by (simp_all add: ratingToStars_def Math_round_def)

subsection \<open>\<open>orderTags\<close>\<close>

lemma orderTags_step_plain:
  "tag_id tag \<notin> set Object_prototype \<Longrightarrow>
   orderTags_step tags tag =
     Inr (tags(tag_id tag \<mapsto>
            (case tags (tag_id tag) of None \<Rightarrow> [] | Some vs \<Rightarrow> vs) @ [tag_value tag]))"
  by (simp add: orderTags_step_def get_property_def split: option.splits)

lemma orderTags_loop_plain:
  "\<forall>t \<in> set xs. tag_id t \<notin> set Object_prototype \<Longrightarrow>
   orderTags_loop xs tags =
     Inr (\<lambda>k. if k \<in> tag_id ` set xs
              then Some ((case tags k of None \<Rightarrow> [] | Some vs \<Rightarrow> vs)
                         @ map tag_value (filter (\<lambda>t. tag_id t = k) xs))
              else tags k)"
proof (induction xs arbitrary: tags)
  case Nil
  then show ?case by simp
next
  case (Cons x xs)
  then have x: "tag_id x \<notin> set Object_prototype"
    and xs: "\<forall>t \<in> set xs. tag_id t \<notin> set Object_prototype"
    by simp_all
  show ?case
    unfolding orderTags_loop.simps orderTags_step_plain [OF x] sum.case Cons.IH [OF xs]
    by (rule arg_cong [where f = Inr], rule ext)
      (auto simp: filter_empty_conv image_iff split: option.splits)
qed

text \<open>On a list none of whose ids is a property name of \<open>Object.prototype\<close>, \<open>orderTags\<close>
  returns the dictionary whose keys are the ids of the list, each with the values of the
  tags of that id, in the order of the list.\<close>

lemma orderTags_collects:
  "\<forall>t \<in> set nativeTags. tag_id t \<notin> set Object_prototype \<Longrightarrow>
   orderTags nativeTags =
     Inr (\<lambda>k. if k \<in> tag_id ` set nativeTags
              then Some (map tag_value (filter (\<lambda>t. tag_id t = k) nativeTags))
              else None)"
  by (simp add: orderTags_def orderTags_loop_plain cong: if_cong)

lemma orderTags_example:
  "\<exists>d. orderTags [\<lparr>tag_id = ''ARTIST'', tag_value = ''A''\<rparr>,
                   \<lparr>tag_id = ''TITLE'', tag_value = ''X''\<rparr>,
                   \<lparr>tag_id = ''ARTIST'', tag_value = ''B''\<rparr>] = Inr d
     \<and> d ''ARTIST'' = Some [''A'', ''B''] \<and> d ''TITLE'' = Some [''X''] \<and> d ''ALBUM'' = None"
  by (simp add: orderTags_def orderTags_step_def get_property_def Object_prototype_def)

lemma orderTags_step_inherited:
  "tag_id tag \<in> set Object_prototype \<Longrightarrow> tags (tag_id tag) = None \<Longrightarrow>
   orderTags_step tags tag = Inl TypeError"
  by (simp add: orderTags_step_def get_property_def)

lemma orderTags_step_own:
  "orderTags_step tags tag = Inr tags' \<Longrightarrow> \<forall>k \<in> set Object_prototype. tags k = None \<Longrightarrow>
   \<forall>k \<in> set Object_prototype. tags' k = None"
  by (auto simp: orderTags_step_def get_property_def
      split: property.splits option.splits if_splits)

lemma orderTags_loop_throws:
  "t \<in> set xs \<Longrightarrow> tag_id t \<in> set Object_prototype \<Longrightarrow>
   \<forall>k \<in> set Object_prototype. tags k = None \<Longrightarrow> orderTags_loop xs tags = Inl TypeError"
proof (induction xs arbitrary: tags)
  case Nil
  then show ?case by simp
next
  case (Cons x xs)
  show ?case
  proof (cases "tag_id x \<in> set Object_prototype")
    case True
    with Cons.prems(3) have "tags (tag_id x) = None" by blast
    with True show ?thesis by (simp add: orderTags_step_inherited)
  next
    case False
    with Cons.prems have "t \<in> set xs" by auto
    moreover obtain tags' where step: "orderTags_step tags x = Inr tags'"
      using False by (simp add: orderTags_step_plain)
    moreover have "\<forall>k \<in> set Object_prototype. tags' k = None"
      using orderTags_step_own [OF step Cons.prems(3)] .
    ultimately show ?thesis
      using Cons.IH [of tags'] Cons.prems(2) by simp
  qed
qed

text \<open>
  C3. The claim: for every list of native tags \<open>orderTags\<close> returns the dictionary from
  each id to the values of the tags of that id, in arrival order. The code does so on the
  lists of \<open>orderTags_collects\<close>; on the list of a tag \<open>TIT2\<close> followed by a tag
  \<open>valueOf\<close> it returns no dictionary: the read of \<open>tags["valueOf"]\<close> gives the function
  inherited from \<open>Object.prototype\<close>, and the call of its \<open>push\<close> throws.
\<close>

theorem orderTags_valueOf:
  "orderTags [\<lparr>tag_id = ''TIT2'', tag_value = ''Hello''\<rparr>,
              \<lparr>tag_id = ''valueOf'', tag_value = ''World''\<rparr>] = Inl TypeError"
  by (simp add: orderTags_def orderTags_step_def get_property_def Object_prototype_def)

text \<open>
  C9. \<open>orderTags\<close> is not total over the tag ids: on a list that holds a tag whose id is a
  property name of \<open>Object.prototype\<close>, \<open>toString\<close> for one, the read of the accumulator
  gives the inherited property, the array is not created, and \<open>push\<close> throws; no
  dictionary is returned.
\<close>

theorem orderTags_not_total:
  "t \<in> set nativeTags \<Longrightarrow> tag_id t \<in> set Object_prototype \<Longrightarrow>
   get_property Map.empty (tag_id t) = Inherited \<and> orderTags nativeTags = Inl TypeError"
  by (simp add: orderTags_def orderTags_loop_throws get_property_def)

theorem orderTags_not_total_witness:
  "get_property Map.empty ''toString'' = (Inherited :: nat property)
   \<and> orderTags [\<lparr>tag_id = ''toString'', tag_value = (1::nat)\<rparr>] = Inl TypeError"
  using orderTags_not_total [of "\<lparr>tag_id = ''toString'', tag_value = (1::nat)\<rparr>"
      "[\<lparr>tag_id = ''toString'', tag_value = (1::nat)\<rparr>]"]
  by (simp add: Object_prototype_def)

subsection \<open>\<open>scanAppendingHeaders\<close>\<close>

text \<open>A scan that completes has written to \<open>options.apeOffset\<close> what
  \<open>findApeFooterOffset\<close> resolved to, and to no other property.\<close>

lemma scanAppendingHeaders_cases:
  "scanAppendingHeaders X r (Some opts) = Inr opts' \<Longrightarrow>
   \<exists>pos found. findApeFooterOffset X r pos = Inr found \<and> opts' = opts\<lparr>apeOffset := found\<rparr>"
  by (auto simp: scanAppendingHeaders_def Let_def split: sum.splits if_splits)

lemma scanAppendingHeaders_given:
  "scanAppendingHeaders X r (Some (opts\<lparr>apeOffset := given\<rparr>))
     = scanAppendingHeaders X r (Some opts)"
  by (auto simp: scanAppendingHeaders_def Let_def split: sum.splits)

lemma scanAppendingHeaders_again:
  "scanAppendingHeaders X r (Some opts) = Inr opts' \<Longrightarrow>
   scanAppendingHeaders X r (Some opts') = Inr opts'"
  by (auto simp: scanAppendingHeaders_def Let_def split: sum.splits if_splits)

text \<open>A probe that rejects ends the scan with its error.\<close>

lemma scanAppendingHeaders_rejects:
  "hasID3v1Header X r = Inl e \<Longrightarrow> scanAppendingHeaders X r options = Inl e"
  "hasID3v1Header X r = Inr True \<Longrightarrow> getLyricsHeaderLength X r = Inl e \<Longrightarrow>
     scanAppendingHeaders X r options = Inl e"
  by (simp_all add: scanAppendingHeaders_def Let_def)

text \<open>
  C1, as the spec states it: when the caller supplies \<open>apeOffset\<close> and the scanner computes
  one, the caller's value is the one used. Not so: on a file of 1000 bytes without ID3v1
  trailer, whose APEv2 tag begins at 968, a caller's \<open>apeOffset\<close> of 7 is replaced by 968.
\<close>

theorem caller_apeOffset_replaced:
  "scanAppendingHeaders (stand_ins False 0) (zero_reader 1000)
     (Some (empty_options\<lparr>apeOffset := Some 7\<rparr>))
   = Inr (empty_options\<lparr>apeOffset := Some 968\<rparr>)"
  by (simp add: scanAppendingHeaders_def Let_def stand_ins_def zero_reader_def
      empty_options_def)

text \<open>
  C1, amended: the scanner's value wins. \<open>scanAppendingHeaders\<close> never reads
  \<open>options.apeOffset\<close>: the scan, and the outcome of \<open>parseBuffer\<close>, are the same whatever
  value the caller supplied, and after a scan that completes \<open>options.apeOffset\<close> is the
  value \<open>findApeFooterOffset\<close> resolved to.
\<close>

theorem scanner_apeOffset_wins:
  "scanAppendingHeaders X r (Some (opts\<lparr>apeOffset := given\<rparr>))
     = scanAppendingHeaders X r (Some opts)
   \<and> snd (parseBuffer X buf mime (Some (opts\<lparr>apeOffset := given\<rparr>)))
       = snd (parseBuffer X buf mime (Some opts))
   \<and> (scanAppendingHeaders X r (Some (opts\<lparr>apeOffset := given\<rparr>)) = Inr opts' \<longrightarrow>
        (\<exists>pos. findApeFooterOffset X r pos = Inr (apeOffset opts')))"
proof -
  have "snd (parseBuffer X buf mime (Some (opts\<lparr>apeOffset := given\<rparr>)))
       = snd (parseBuffer X buf mime (Some opts))"
    by (simp add: parseBuffer_def scanAppendingHeaders_given split: sum.splits)
  moreover have "\<exists>pos. findApeFooterOffset X r pos = Inr (apeOffset opts')"
    if "scanAppendingHeaders X r (Some (opts\<lparr>apeOffset := given\<rparr>)) = Inr opts'"
    using scanAppendingHeaders_cases [OF that] by auto
  ultimately show ?thesis
    by (simp add: scanAppendingHeaders_given)
qed

theorem scanner_apeOffset_wins_witness:
  "scanAppendingHeaders (stand_ins False 0) (zero_reader 1000)
     (Some (empty_options\<lparr>apeOffset := Some 7\<rparr>))
   = Inr (empty_options\<lparr>apeOffset := Some 968\<rparr>)
   \<and> (\<exists>pos. findApeFooterOffset (stand_ins False 0) (zero_reader 1000) pos = Inr (Some 968))"
  using scanner_apeOffset_wins [where X = "stand_ins False 0" and r = "zero_reader 1000"
      and opts = empty_options and given = "Some 7"
      and opts' = "empty_options\<lparr>apeOffset := Some 968\<rparr>"]
  by (simp add: scanAppendingHeaders_def Let_def stand_ins_def zero_reader_def
      empty_options_def)



subsection \<open>\<open>parseBuffer\<close> and \<open>parseStream\<close>\<close>

lemma parseFromTokenizer_probes:
  "parseFromTokenizer
       (X\<lparr>findApeFooterOffset := f, hasID3v1Header := h, getLyricsHeaderLength := l\<rparr>)
       tokenizer mime options
     = parseFromTokenizer X tokenizer mime options"
  by (simp add: parseFromTokenizer_def cong: option.case_cong if_cong)

text \<open>
  C5. \<open>parseBuffer\<close> scans first, whether the caller passes options or leaves them to
  the default \<open>{}\<close>: when the scan completes, the object it wrote to is the one the
  tokenizer is parsed with and the one the call leaves behind; when the scan rejects,
  \<open>parseBuffer\<close> rejects with the same error whatever \<open>fromBuffer\<close> and the parser
  factory would do, so neither has been reached. \<open>parseStream\<close> does not scan, with or
  without options: its outcome is the same whatever the three probes are, and the parser
  is given the options as they are.
\<close>

theorem trailer_scan_in_parseBuffer_only:
  "(scanAppendingHeaders X (RandomBufferReader X buf)
        (Some (case options of None \<Rightarrow> empty_options | Some given \<Rightarrow> given)) = Inr opts' \<longrightarrow>
      parseBuffer X buf mime options
        = (opts', parseFromTokenizer X (fromBuffer X buf) mime (Some opts')))
   \<and> (scanAppendingHeaders X (RandomBufferReader X buf)
        (Some (case options of None \<Rightarrow> empty_options | Some given \<Rightarrow> given)) = Inl e \<longrightarrow>
      parseBuffer (X\<lparr>fromBuffer := fb, parseOnContentType := p\<rparr>) buf mime options
        = (case options of None \<Rightarrow> empty_options | Some given \<Rightarrow> given, Inl e))
   \<and> parseStream (X\<lparr>findApeFooterOffset := f, hasID3v1Header := h, getLyricsHeaderLength := l\<rparr>)
        stream mime options
      = parseStream X stream mime options
   \<and> parseStream X stream mime options
      = parseFromTokenizer X (fromStream X stream) mime
          (Some (case options of None \<Rightarrow> empty_options | Some given \<Rightarrow> given))"
proof -
  let ?opts = "case options of None \<Rightarrow> empty_options | Some given \<Rightarrow> given"
  have scan_same:
    "scanAppendingHeaders (X\<lparr>fromBuffer := fb, parseOnContentType := p\<rparr>) r given
       = scanAppendingHeaders X r given" for r given
    by (simp add: scanAppendingHeaders_def Let_def cong: sum.case_cong if_cong)
  have "parseBuffer X buf mime options
          = (opts', parseFromTokenizer X (fromBuffer X buf) mime (Some opts'))"
    if "scanAppendingHeaders X (RandomBufferReader X buf) (Some ?opts) = Inr opts'"
    using that by (simp add: parseBuffer_def)
  moreover have "parseBuffer (X\<lparr>fromBuffer := fb, parseOnContentType := p\<rparr>) buf mime options
          = (?opts, Inl e)"
    if "scanAppendingHeaders X (RandomBufferReader X buf) (Some ?opts) = Inl e"
    using that by (simp add: parseBuffer_def scan_same)
  moreover have "parseStream
        (X\<lparr>findApeFooterOffset := f, hasID3v1Header := h, getLyricsHeaderLength := l\<rparr>)
        stream mime options
      = parseStream X stream mime options"
    by (simp add: parseStream_def parseFromTokenizer_probes)
  moreover have "parseStream X stream mime options
      = parseFromTokenizer X (fromStream X stream) mime (Some ?opts)"
    by (simp add: parseStream_def)
  ultimately show ?thesis by blast
qed

theorem trailer_scan_in_parseBuffer_only_witness:
  "parseBuffer (stand_ins True 20) (replicate 1000 0) (Some ''audio/mpeg'') None
       = (empty_options\<lparr>apeOffset := Some 820\<rparr>,
          Inr (\<lparr>ITokenizer.fileSize = Some 1000, position = 0\<rparr>, Some ''audio/mpeg'',
               Some (empty_options\<lparr>apeOffset := Some 820\<rparr>)))
   \<and> parseBuffer (stand_ins True 20) (replicate 1000 0) (Some ''audio/mpeg'')
         (Some (empty_options\<lparr>path := Some ''a.mp3''\<rparr>))
       = (empty_options\<lparr>path := Some ''a.mp3'', apeOffset := Some 820\<rparr>,
          Inr (\<lparr>ITokenizer.fileSize = Some 1000, position = 0\<rparr>, Some ''audio/mpeg'',
               Some (empty_options\<lparr>path := Some ''a.mp3'', apeOffset := Some 820\<rparr>)))
   \<and> parseStream (stand_ins True 20) (replicate 1000 0) (Some ''audio/mpeg'') None
       = Inr (\<lparr>ITokenizer.fileSize = None, position = 0\<rparr>, Some ''audio/mpeg'',
               Some empty_options)
   \<and> parseStream (stand_ins True 20) (replicate 1000 0) (Some ''audio/mpeg'')
         (Some (empty_options\<lparr>path := Some ''a.mp3''\<rparr>))
       = Inr (\<lparr>ITokenizer.fileSize = None, position = 0\<rparr>, Some ''audio/mpeg'',
               Some (empty_options\<lparr>path := Some ''a.mp3''\<rparr>))"
proof -
  let ?X = "stand_ins True 20"
  let ?buf = "replicate 1000 0 :: Buffer"
  let ?given = "empty_options\<lparr>path := Some ''a.mp3''\<rparr> :: unit IOptions"
  have scan_default: "scanAppendingHeaders ?X (RandomBufferReader ?X ?buf) (Some empty_options)
      = Inr (empty_options\<lparr>apeOffset := Some 820\<rparr>)"
    by (simp add: scanAppendingHeaders_def Let_def stand_ins_def)
  have scan_given: "scanAppendingHeaders ?X (RandomBufferReader ?X ?buf) (Some ?given)
      = Inr (?given\<lparr>apeOffset := Some 820\<rparr>)"
    by (simp add: scanAppendingHeaders_def Let_def stand_ins_def)
  have parser: "parseFromTokenizer ?X (fromBuffer ?X ?buf) mime (Some opts)
      = Inr (\<lparr>ITokenizer.fileSize = Some 1000, position = 0\<rparr>, mime, Some opts)" for mime opts
    by (simp add: parseFromTokenizer_def truthy_def stand_ins_def)
  have stream: "parseFromTokenizer ?X (fromStream ?X ?buf) mime (Some opts)
      = Inr (\<lparr>ITokenizer.fileSize = None, position = 0\<rparr>, mime, Some opts)"
    if "IOptions.fileSize opts = None" for mime opts
    using that by (simp add: parseFromTokenizer_def truthy_def stand_ins_def)
  from trailer_scan_in_parseBuffer_only [where X = ?X and buf = ?buf and options = None
      and opts' = "empty_options\<lparr>apeOffset := Some 820\<rparr>" and mime = "Some ''audio/mpeg''"
      and stream = ?buf]
    trailer_scan_in_parseBuffer_only [where X = ?X and buf = ?buf and options = "Some ?given"
      and opts' = "?given\<lparr>apeOffset := Some 820\<rparr>" and mime = "Some ''audio/mpeg''"
      and stream = ?buf]
    scan_default scan_given
  show ?thesis
    by (simp add: parser stream empty_options_def)
qed

text \<open>
  C10. \<open>scanAppendingHeaders\<close> writes to the options object it is given, and so does
  \<open>parseBuffer\<close>: after a scan that completes \<open>apeOffset\<close> is what
  \<open>findApeFooterOffset\<close> resolved to and the object is otherwise as it was; after
  \<open>parseBuffer\<close> the caller's object is the one the scan left (the untouched one when the
  scan rejected), and \<open>path\<close>, \<open>fileSize\<close>, \<open>native\<close>, \<open>duration\<close>, \<open>skipCovers\<close>,
  \<open>skipPostHeaders\<close> and \<open>observer\<close> are as the caller set them.
\<close>

theorem options_only_apeOffset_written:
  "(scanAppendingHeaders X r (Some opts) = Inr opts' \<longrightarrow>
      (\<exists>pos. findApeFooterOffset X r pos = Inr (apeOffset opts'))
      \<and> opts' = opts\<lparr>apeOffset := apeOffset opts'\<rparr>)
   \<and> (parseBuffer X buf mime (Some opts) = (opts1, outcome) \<longrightarrow>
      opts1 = (case scanAppendingHeaders X (RandomBufferReader X buf) (Some opts) of
                 Inl e \<Rightarrow> opts | Inr scanned \<Rightarrow> scanned)
      \<and> path opts1 = path opts \<and> IOptions.fileSize opts1 = IOptions.fileSize opts
      \<and> native opts1 = native opts \<and> duration opts1 = duration opts
      \<and> skipCovers opts1 = skipCovers opts \<and> skipPostHeaders opts1 = skipPostHeaders opts
      \<and> observer opts1 = observer opts)"
proof -
  have scan: "(\<exists>pos. findApeFooterOffset X r pos = Inr (apeOffset opts'))
      \<and> opts' = opts\<lparr>apeOffset := apeOffset opts'\<rparr>"
    if "scanAppendingHeaders X r (Some opts) = Inr opts'" for r opts'
    using scanAppendingHeaders_cases [OF that] by auto
  have "opts1 = (case scanAppendingHeaders X (RandomBufferReader X buf) (Some opts) of
                 Inl e \<Rightarrow> opts | Inr scanned \<Rightarrow> scanned)
      \<and> path opts1 = path opts \<and> IOptions.fileSize opts1 = IOptions.fileSize opts
      \<and> native opts1 = native opts \<and> duration opts1 = duration opts
      \<and> skipCovers opts1 = skipCovers opts \<and> skipPostHeaders opts1 = skipPostHeaders opts
      \<and> observer opts1 = observer opts"
    if run: "parseBuffer X buf mime (Some opts) = (opts1, outcome)"
  proof (cases "scanAppendingHeaders X (RandomBufferReader X buf) (Some opts)")
    case (Inl e)
    with run show ?thesis by (auto simp: parseBuffer_def)
  next
    case (Inr scanned)
    with run have "opts1 = scanned" by (auto simp: parseBuffer_def)
    moreover from scan [OF Inr] obtain found where "scanned = opts\<lparr>apeOffset := found\<rparr>"
      by blast
    ultimately show ?thesis using Inr by simp
  qed
  with scan show ?thesis by blast
qed

theorem options_only_apeOffset_written_witness:
  "scanAppendingHeaders (stand_ins True 20) (zero_reader 1000)
       (Some (empty_options\<lparr>path := Some ''a.mp3'', native := Some True\<rparr>))
     = Inr (empty_options\<lparr>path := Some ''a.mp3'', native := Some True, apeOffset := Some 820\<rparr>)
   \<and> fst (parseBuffer (stand_ins True 20) (replicate 1000 0) None
       (Some (empty_options\<lparr>path := Some ''a.mp3'', native := Some True\<rparr>)))
     = empty_options\<lparr>path := Some ''a.mp3'', native := Some True, apeOffset := Some 820\<rparr>"
proof -
  let ?X = "stand_ins True 20"
  let ?opts = "empty_options\<lparr>path := Some ''a.mp3'', native := Some True\<rparr> :: unit IOptions"
  let ?opts' = "?opts\<lparr>apeOffset := Some 820\<rparr>"
  have scan: "scanAppendingHeaders ?X (zero_reader 1000) (Some ?opts) = Inr ?opts'"
    by (simp add: scanAppendingHeaders_def Let_def stand_ins_def zero_reader_def)
  have run: "parseBuffer ?X (replicate 1000 0) None (Some ?opts)
      = (?opts', Inr (\<lparr>ITokenizer.fileSize = Some 1000, position = 0\<rparr>, None, Some ?opts'))"
    by (simp add: parseBuffer_def scanAppendingHeaders_def Let_def stand_ins_def
        parseFromTokenizer_def truthy_def)
  from options_only_apeOffset_written [where X = ?X and r = "zero_reader 1000" and opts = ?opts
      and opts' = ?opts' and buf = "replicate 1000 0" and mime = None and ?opts1.0 = ?opts'
      and outcome = "Inr (\<lparr>ITokenizer.fileSize = Some 1000, position = 0\<rparr>, None, Some ?opts')"]
    scan run
  show ?thesis by simp
qed

subsection \<open>\<open>parseFromTokenizer\<close>\<close>

text \<open>
  C6, as the spec states it: a tokenizer that has a \<open>fileSize\<close> keeps it. Not so when the
  size it has is 0, as for an empty file: \<open>!tokenizer.fileSize\<close> holds of 0, and the
  \<open>fileSize\<close> 5 of the options replaces it.
\<close>

theorem tokenizer_fileSize_zero_overridden:
  "parseFromTokenizer (stand_ins False 0) \<lparr>ITokenizer.fileSize = Some 0, position = 0\<rparr> None
     (Some (empty_options\<lparr>IOptions.fileSize := Some 5\<rparr>))
   = Inr (\<lparr>ITokenizer.fileSize = Some 5, position = 0\<rparr>, None,
          Some (empty_options\<lparr>IOptions.fileSize := Some 5\<rparr>))"
  by (simp add: parseFromTokenizer_def truthy_def stand_ins_def empty_options_def)

text \<open>
  C6, amended: the test is JavaScript truthiness. A tokenizer whose \<open>fileSize\<close> is
  defined and not 0 reaches the parser as it is; one whose \<open>fileSize\<close> is undefined or 0
  reaches it with \<open>fileSize\<close> set to \<open>options.fileSize\<close> when that is defined and not 0,
  its \<open>position\<close> and the rest of it unchanged, and as it is otherwise.
\<close>

theorem parseFromTokenizer_fileSize:
  "(truthy (fileSize tokenizer) \<longrightarrow>
      parseFromTokenizer X tokenizer mime (Some opts)
        = parseOnContentType X tokenizer mime (Some opts))
   \<and> (\<not> truthy (fileSize tokenizer) \<and> truthy (IOptions.fileSize opts) \<longrightarrow>
      parseFromTokenizer X tokenizer mime (Some opts)
        = parseOnContentType X (tokenizer\<lparr>fileSize := IOptions.fileSize opts\<rparr>) mime (Some opts)
      \<and> position (tokenizer\<lparr>fileSize := IOptions.fileSize opts\<rparr>) = position tokenizer
      \<and> ITokenizer.more (tokenizer\<lparr>fileSize := IOptions.fileSize opts\<rparr>)
          = ITokenizer.more tokenizer)
   \<and> (\<not> truthy (fileSize tokenizer) \<and> \<not> truthy (IOptions.fileSize opts) \<longrightarrow>
      parseFromTokenizer X tokenizer mime (Some opts)
        = parseOnContentType X tokenizer mime (Some opts))"
  by (simp add: parseFromTokenizer_def)

theorem parseFromTokenizer_fileSize_witness:
  "parseFromTokenizer (stand_ins False 0) \<lparr>ITokenizer.fileSize = Some 10, position = 3\<rparr> None
     (Some (empty_options\<lparr>IOptions.fileSize := Some 5\<rparr>))
   = Inr (\<lparr>ITokenizer.fileSize = Some 10, position = 3\<rparr>, None,
          Some (empty_options\<lparr>IOptions.fileSize := Some 5\<rparr>))
   \<and> parseFromTokenizer (stand_ins False 0) \<lparr>ITokenizer.fileSize = None, position = 3\<rparr> None
     (Some (empty_options\<lparr>IOptions.fileSize := Some 5\<rparr>))
   = Inr (\<lparr>ITokenizer.fileSize = Some 5, position = 3\<rparr>, None,
          Some (empty_options\<lparr>IOptions.fileSize := Some 5\<rparr>))
   \<and> parseFromTokenizer (stand_ins False 0) \<lparr>ITokenizer.fileSize = None, position = 3\<rparr> None
     (Some (empty_options\<lparr>IOptions.fileSize := Some 0\<rparr>))
   = Inr (\<lparr>ITokenizer.fileSize = None, position = 3\<rparr>, None,
          Some (empty_options\<lparr>IOptions.fileSize := Some 0\<rparr>))"
  using parseFromTokenizer_fileSize [where X = "stand_ins False 0"
      and tokenizer = "\<lparr>ITokenizer.fileSize = Some 10, position = 3\<rparr>" and mime = None
      and opts = "empty_options\<lparr>IOptions.fileSize := Some 5\<rparr>"]
    parseFromTokenizer_fileSize [where X = "stand_ins False 0"
      and tokenizer = "\<lparr>ITokenizer.fileSize = None, position = 3\<rparr>" and mime = None
      and opts = "empty_options\<lparr>IOptions.fileSize := Some 5\<rparr>"]
    parseFromTokenizer_fileSize [where X = "stand_ins False 0"
      and tokenizer = "\<lparr>ITokenizer.fileSize = None, position = 3\<rparr>" and mime = None
      and opts = "empty_options\<lparr>IOptions.fileSize := Some 0\<rparr>"]
  by (simp add: truthy_def stand_ins_def empty_options_def)

text \<open>
  C8, as stated: a call of \<open>parseFromTokenizer\<close> without options throws, since
  \<open>options.fileSize\<close> is read unconditionally. Not so: \<open>&&\<close> does not evaluate its right
  operand for a tokenizer whose \<open>fileSize\<close> is 10, and the call without options reaches
  the parser factory, with \<open>undefined\<close> for the options.
\<close>

theorem parseFromTokenizer_without_options_parses:
  "parseFromTokenizer (stand_ins False 0) \<lparr>ITokenizer.fileSize = Some 10, position = 0\<rparr>
     None None
   = Inr (\<lparr>ITokenizer.fileSize = Some 10, position = 0\<rparr>, None, None)"
  by (simp add: parseFromTokenizer_def truthy_def stand_ins_def)

text \<open>
  C8, amended: a call of \<open>parseFromTokenizer\<close> without options throws a \<open>TypeError\<close>
  before the parser factory is reached exactly when the tokenizer's \<open>fileSize\<close> is
  undefined or 0, as it is for the tokenizer of a stream; otherwise the call is handed on
  to the parser factory. So the entry point is not total over its declared signature.
\<close>

theorem parseFromTokenizer_without_options:
  "parseFromTokenizer X tokenizer mime None
     = (if truthy (fileSize tokenizer) then parseOnContentType X tokenizer mime None
        else Inl TypeError)"
  by (simp add: parseFromTokenizer_def)

theorem parseFromTokenizer_without_options_witness:
  "parseFromTokenizer (stand_ins False 0) (fromStream (stand_ins False 0) []) None None
     = Inl TypeError"
  using parseFromTokenizer_without_options [where X = "stand_ins False 0"
      and tokenizer = "fromStream (stand_ins False 0) []" and mime = None]
  by (simp add: truthy_def stand_ins_def)

end
